theory Spec2Isabelle
  imports Complex_Main
begin

section \<open>JavaScript values, errors and responses\<close>

text \<open>
  The values that reach the handlers of \<^verbatim>\<open>server.js\<close> are parsed JSON (or URL-encoded)
  data: \<^verbatim>\<open>undefined\<close> stands for a property the object does not have. A JSON number is a
  finite number, so \<^verbatim>\<open>NaN\<close> does not occur; strings are character lists.
\<close>

datatype jsval =
    JUndefined
  | JNull
  | JBool bool
  | JNum rat
  | JStr string
  | JArr "jsval list"
  | JObj "(string \<times> jsval) list"

text \<open>JavaScript's \<^verbatim>\<open>ToBoolean\<close>, which \<^verbatim>\<open>!x\<close> and \<^verbatim>\<open>if (x)\<close> apply.\<close>

fun truthy :: "jsval \<Rightarrow> bool" where
  "truthy JUndefined = False"
| "truthy JNull = False"
| "truthy (JBool b) = b"
| "truthy (JNum n) = (n \<noteq> 0)"
| "truthy (JStr s) = (s \<noteq> [])"
| "truthy (JArr xs) = True"
| "truthy (JObj kvs) = True"

text \<open>
  A thrown value: \<^verbatim>\<open>new Error(msg)\<close>, the \<^verbatim>\<open>TypeError\<close> the engine raises itself, or the
  \<^verbatim>\<open>SyntaxError\<close> of a body that does not parse. \<open>error_message\<close> is the \<^verbatim>\<open>.message\<close>
  property.
\<close>

datatype js_error = Error string | TypeError string | SyntaxError string

fun error_message :: "js_error \<Rightarrow> string" where
  "error_message (Error m) = m"
| "error_message (TypeError m) = m"
| "error_message (SyntaxError m) = m"

fun error_value :: "js_error \<Rightarrow> jsval" where
  "error_value (Error m) = JObj [(''name'', JStr ''Error''), (''message'', JStr m)]"
| "error_value (TypeError m) = JObj [(''name'', JStr ''TypeError''), (''message'', JStr m)]"
| "error_value (SyntaxError m) = JObj [(''name'', JStr ''SyntaxError''), (''message'', JStr m)]"

text \<open>Reading a property of a parsed object: \<^verbatim>\<open>undefined\<close> when it is absent.\<close>

definition get_prop :: "(string \<times> jsval) list \<Rightarrow> string \<Rightarrow> jsval" where
  "get_prop obj k = (case map_of obj k of None \<Rightarrow> JUndefined | Some v \<Rightarrow> v)"

text \<open>
  Reading, from a value that is neither \<^verbatim>\<open>undefined\<close> nor \<^verbatim>\<open>null\<close>, one of the two properties
  the send-message route asks for: an object answers with its own property, and no array,
  string, number or boolean has a property of either name.
\<close>

fun get_field :: "jsval \<Rightarrow> string \<Rightarrow> jsval" where
  "get_field (JObj kvs) k = get_prop kvs k"
| "get_field v k = JUndefined"

record response =
  statusCode :: nat
  body :: "(string \<times> jsval) list"

text \<open>\<^verbatim>\<open>res.json(b)\<close> answers with status 200; \<^verbatim>\<open>res.status(c).json(b)\<close> with status \<open>c\<close>.\<close>

definition res_json :: "(string \<times> jsval) list \<Rightarrow> response" where
  "res_json b = \<lparr>statusCode = 200, body = b\<rparr>"

definition res_status_json :: "nat \<Rightarrow> (string \<times> jsval) list \<Rightarrow> response" where
  "res_status_json c b = \<lparr>statusCode = c, body = b\<rparr>"


section \<open>Connection state and lifecycle events\<close>

text \<open>The two module-level variables \<^verbatim>\<open>isReady\<close> and \<^verbatim>\<open>qrCodeData\<close> (\<open>None\<close> is \<^verbatim>\<open>null\<close>).\<close>

record conn_state =
  isReady :: bool
  qrCodeData :: "string option"

definition initial_state :: conn_state where
  "initial_state = \<lparr>isReady = False, qrCodeData = None\<rparr>"

text \<open>The events of the messaging client that \<^verbatim>\<open>server.js\<close> subscribes to, with their payloads.\<close>

datatype event =
    Qr string
  | LoadingScreen jsval jsval
  | Ready
  | Authenticated
  | AuthFailure jsval
  | ChangeState jsval
  | Disconnected jsval

text \<open>
  What the code does besides assigning its two variables, in program order: console output,
  the terminal rendering of the QR code, timers, and the calls of the send-message handler.
  A timer carries its callback and its delay in milliseconds.
\<close>

datatype callback = ClientInitialize

datatype action =
    ConsoleLog "jsval list"
  | ConsoleError "jsval list"
  | QrcodeGenerate string
  | SetTimeout callback nat
  | FormatPhoneNumber jsval
  | IsRegisteredUser string
  | SendMessage string jsval

text \<open>
  The event handlers. Each returns the new state, what it did, and the error it threw, if
  any. \<^verbatim>\<open>qrcode.generate\<close> belongs to a library outside this repository: it is the parameter
  \<open>generate\<close>, which returns (\<open>Inr ()\<close>) or throws (\<open>Inl e\<close>) on a payload it cannot encode. The
  QR handler calls it before it assigns \<^verbatim>\<open>qrCodeData\<close> and catches nothing, so a throw
  leaves the assignment undone.
\<close>

fun on_event ::
  "(string \<Rightarrow> js_error + unit) \<Rightarrow> event \<Rightarrow> conn_state \<Rightarrow>
     conn_state \<times> action list \<times> js_error option" where
  "on_event generate (Qr qr) s =
     (case generate qr of
        Inl e \<Rightarrow>
          (s,
           [ConsoleLog [JStr ''QR Code received, please scan with your WhatsApp mobile app:''],
            QrcodeGenerate qr],
           Some e)
      | Inr u \<Rightarrow>
          (s\<lparr>qrCodeData := Some qr\<rparr>,
           [ConsoleLog [JStr ''QR Code received, please scan with your WhatsApp mobile app:''],
            QrcodeGenerate qr],
           None))"
| "on_event generate (LoadingScreen percent message) s =
     (s, [ConsoleLog [JStr ''Loading:'', percent, JStr ''%'', message]], None)"
| "on_event generate Ready s =
     (s\<lparr>isReady := True, qrCodeData := None\<rparr>,
      [ConsoleLog [JStr ''WhatsApp Client is ready!'']], None)"
| "on_event generate Authenticated s =
     (s, [ConsoleLog [JStr ''WhatsApp Client authenticated successfully'']], None)"
| "on_event generate (AuthFailure msg) s =
     (s\<lparr>isReady := False\<rparr>,
      [ConsoleError [JStr ''Authentication failed:'', msg]], None)"
| "on_event generate (ChangeState st) s =
     (s, [ConsoleLog [JStr ''Connection state changed:'', st]], None)"
| "on_event generate (Disconnected reason) s =
     (s\<lparr>isReady := False\<rparr>,
      [ConsoleLog [JStr ''WhatsApp Client disconnected:'', reason],
       ConsoleLog [JStr ''Attempting to reconnect in 5 seconds...''],
       SetTimeout ClientInitialize 5000],
      None)"

definition state_after :: "conn_state \<times> action list \<times> js_error option \<Rightarrow> conn_state" where
  "state_after r = fst r"

definition actions_of :: "conn_state \<times> action list \<times> js_error option \<Rightarrow> action list" where
  "actions_of r = fst (snd r)"

definition thrown :: "conn_state \<times> action list \<times> js_error option \<Rightarrow> js_error option" where
  "thrown r = snd (snd r)"

text \<open>The state after a sequence of events, delivered one after the other.\<close>

fun run_events :: "(string \<Rightarrow> js_error + unit) \<Rightarrow> event list \<Rightarrow> conn_state \<Rightarrow> conn_state" where
  "run_events generate [] s = s"
| "run_events generate (e # es) s = run_events generate es (state_after (on_event generate e s))"

text \<open>The timers an action list sets.\<close>

fun timers :: "action list \<Rightarrow> (callback \<times> nat) list" where
  "timers [] = []"
| "timers (SetTimeout cb ms # as) = (cb, ms) # timers as"
| "timers (a # as) = timers as"

text \<open>
  A sequence of events in which every QR code arrives while \<^verbatim>\<open>isReady\<close> is false, as it
  does when the client asks for a scan only before it is ready or after it has reported a
  disconnection or an authentication failure.
\<close>

fun is_qr :: "event \<Rightarrow> bool" where
  "is_qr (Qr qr) = True"
| "is_qr e = False"

fun qr_only_when_not_ready ::
  "(string \<Rightarrow> js_error + unit) \<Rightarrow> event list \<Rightarrow> conn_state \<Rightarrow> bool" where
  "qr_only_when_not_ready generate [] s = True"
| "qr_only_when_not_ready generate (e # es) s =
     ((if is_qr e then \<not> isReady s else True) \<and>
      qr_only_when_not_ready generate es (state_after (on_event generate e s)))"


section \<open>The phone number normalizer\<close>

text \<open>\<^verbatim>\<open>\D\<close> matches every character outside \<^verbatim>\<open>0-9\<close>.\<close>

definition is_digit :: "char \<Rightarrow> bool" where
  "is_digit c = (c \<in> set ''0123456789'')"

text \<open>\<^verbatim>\<open>s.replace(/\D/g, "")\<close>: a left-to-right scan that drops every match.\<close>

fun replace_non_digits :: "string \<Rightarrow> string" where
  "replace_non_digits [] = []"
| "replace_non_digits (c # cs) =
     (if is_digit c then c # replace_non_digits cs else replace_non_digits cs)"

fun startsWith :: "string \<Rightarrow> string \<Rightarrow> bool" where
  "startsWith s [] = True"
| "startsWith [] (p # ps) = False"
| "startsWith (c # cs) (p # ps) = (c = p \<and> startsWith cs ps)"

definition substring :: "string \<Rightarrow> nat \<Rightarrow> string" where
  "substring s n = drop n s"

definition msg_country_code :: string where
  "msg_country_code =
     ''Invalid Rwandan phone number. Should be 12 digits with country code (250)''"

definition msg_local :: string where
  "msg_local =
     ''Invalid Rwandan phone number. Local format should be 10 digits starting with 0''"

definition msg_format :: string where
  "msg_format =
     ''Invalid Rwandan phone number format. Use: 250788123456, 0788123456, or 788123456''"

text \<open>
  \<^verbatim>\<open>formatPhoneNumber\<close>. The handler passes whatever truthy value the request carries;
  only a string has a \<^verbatim>\<open>replace\<close> method, any other value makes the call itself raise a
  \<^verbatim>\<open>TypeError\<close>.
\<close>

fun formatPhoneNumber :: "jsval \<Rightarrow> js_error + string" where
  "formatPhoneNumber (JStr phoneNumber) =
     (let cleaned = replace_non_digits phoneNumber in
      if startsWith cleaned ''250'' then
        (if length cleaned \<noteq> 12 then Inl (Error msg_country_code)
         else Inr (cleaned @ ''@c.us''))
      else if startsWith cleaned ''0'' then
        (if length cleaned \<noteq> 10 then Inl (Error msg_local)
         else Inr ((''250'' @ substring cleaned 1) @ ''@c.us''))
      else if length cleaned = 9 then Inr ((''250'' @ cleaned) @ ''@c.us'')
      else Inl (Error msg_format))"
| "formatPhoneNumber JUndefined =
     Inl (TypeError ''Cannot read properties of undefined (reading 'replace')'')"
| "formatPhoneNumber JNull =
     Inl (TypeError ''Cannot read properties of null (reading 'replace')'')"
| "formatPhoneNumber v = Inl (TypeError ''phoneNumber.replace is not a function'')"

text \<open>The three failures the normalizer raises on purpose.\<close>

definition invalid_format :: "js_error set" where
  "invalid_format = {Error msg_country_code, Error msg_local, Error msg_format}"


section \<open>The HTTP handlers\<close>

subsection \<open>GET /qr\<close>

definition qr_value :: "conn_state \<Rightarrow> jsval" where
  "qr_value s = (case qrCodeData s of None \<Rightarrow> JNull | Some q \<Rightarrow> JStr q)"

definition get_qr :: "conn_state \<Rightarrow> response" where
  "get_qr s =
     (if truthy (qr_value s) then
        res_json [(''qrCode'', qr_value s),
                  (''message'', JStr ''Please scan this QR code with your WhatsApp mobile app'')]
      else if isReady s then
        res_json [(''message'', JStr ''Bot is already authenticated and ready'')]
      else
        res_json [(''message'', JStr ''QR code not available yet. Please wait...'')])"

subsection \<open>POST /send-message\<close>

text \<open>
  The two operations of the messaging client the handler awaits. Each either resolves or
  rejects with an error; \<open>sendMessage\<close> resolves to the id the handler reads as
  \<^verbatim>\<open>sentMessage.id.id\<close>.
\<close>

record wa_client =
  isRegisteredUser :: "string \<Rightarrow> js_error + bool"
  sendMessage :: "string \<Rightarrow> jsval \<Rightarrow> js_error + string"

definition not_ready_response :: response where
  "not_ready_response =
     res_status_json 503
       [(''success'', JBool False),
        (''error'', JStr ''WhatsApp client is not ready. Please check /status endpoint.'')]"

definition missing_field_response :: response where
  "missing_field_response =
     res_status_json 400
       [(''success'', JBool False),
        (''error'', JStr ''Phone number and message are required'')]"

definition not_registered_response :: response where
  "not_registered_response =
     res_status_json 400
       [(''success'', JBool False),
        (''error'', JStr ''Phone number is not registered on WhatsApp'')]"

definition failure_response :: "js_error \<Rightarrow> response" where
  "failure_response e =
     res_status_json 500
       [(''success'', JBool False),
        (''error'', JStr (''Failed to send message: '' @ error_message e))]"

definition internal_error_response :: response where
  "internal_error_response =
     res_status_json 500
       [(''success'', JBool False),
        (''error'', JStr ''Internal server error'')]"

text \<open>
  \<^verbatim>\<open>const { phoneNumber, message } = req.body\<close>: the engine raises a \<^verbatim>\<open>TypeError\<close> when
  \<^verbatim>\<open>req.body\<close> is \<^verbatim>\<open>undefined\<close> or \<^verbatim>\<open>null\<close>, and reads the two properties otherwise.
\<close>

fun destructure_body :: "jsval \<Rightarrow> js_error + (jsval \<times> jsval)" where
  "destructure_body JUndefined =
     Inl (TypeError
       ''Cannot destructure property 'phoneNumber' of 'req.body' as it is undefined.'')"
| "destructure_body JNull =
     Inl (TypeError ''Cannot destructure property 'phoneNumber' of 'req.body' as it is null.'')"
| "destructure_body v = Inr (get_field v ''phoneNumber'', get_field v ''message'')"

text \<open>
  The body of the \<^verbatim>\<open>try\<close> block: the response it sends, or the error it throws, with the
  calls made up to that point. \<open>req_body\<close> is the value of \<^verbatim>\<open>req.body\<close> when the route runs;
  \<open>now\<close> is the value of \<^verbatim>\<open>new Date().toISOString()\<close>.
\<close>

definition send_message_try ::
  "conn_state \<Rightarrow> wa_client \<Rightarrow> string \<Rightarrow> jsval \<Rightarrow> (js_error + response) \<times> action list" where
  "send_message_try s client now req_body =
     (if \<not> isReady s then (Inr not_ready_response, [])
      else
        case destructure_body req_body of
          Inl e \<Rightarrow> (Inl e, [])
        | Inr (phoneNumber, message) \<Rightarrow>
        if \<not> truthy phoneNumber \<or> \<not> truthy message then (Inr missing_field_response, [])
        else
          case formatPhoneNumber phoneNumber of
            Inl e \<Rightarrow> (Inl e, [FormatPhoneNumber phoneNumber])
          | Inr formattedNumber \<Rightarrow>
              (case isRegisteredUser client formattedNumber of
                 Inl e \<Rightarrow>
                   (Inl e, [FormatPhoneNumber phoneNumber, IsRegisteredUser formattedNumber])
               | Inr isRegistered \<Rightarrow>
                   if \<not> isRegistered then
                     (Inr not_registered_response,
                      [FormatPhoneNumber phoneNumber, IsRegisteredUser formattedNumber])
                   else
                     (case sendMessage client formattedNumber message of
                        Inl e \<Rightarrow>
                          (Inl e,
                           [FormatPhoneNumber phoneNumber, IsRegisteredUser formattedNumber,
                            SendMessage formattedNumber message])
                      | Inr messageId \<Rightarrow>
                          (Inr (res_json
                                  [(''success'', JBool True),
                                   (''messageId'', JStr messageId),
                                   (''to'', phoneNumber),
                                   (''message'', message),
                                   (''timestamp'', JStr now)]),
                           [FormatPhoneNumber phoneNumber, IsRegisteredUser formattedNumber,
                            SendMessage formattedNumber message]))))"

text \<open>The route handler: the \<^verbatim>\<open>catch\<close> clause logs the error and answers 500.\<close>

definition send_message ::
  "conn_state \<Rightarrow> wa_client \<Rightarrow> string \<Rightarrow> jsval \<Rightarrow> response \<times> action list" where
  "send_message s client now req_body =
     (case send_message_try s client now req_body of
        (Inr r, acts) \<Rightarrow> (r, acts)
      | (Inl e, acts) \<Rightarrow>
          (failure_response e,
           acts @ [ConsoleError [JStr ''Error sending message:'', error_value e]]))"

text \<open>
  What the body parsers registered before the routes make of a request. They reject a body
  they cannot parse and hand the error to the error-handling middleware, so that the route
  never runs; or they pass the request on with a value in \<^verbatim>\<open>req.body\<close>: the parsed object or
  array, or, for a request with nothing to parse, an empty object or \<^verbatim>\<open>undefined\<close>, as the
  installed version of the framework has it.
\<close>

datatype request_body = Rejected js_error | Parsed jsval

text \<open>
  A request to \<^verbatim>\<open>POST /send-message\<close> through the whole chain: the body parsers, then the
  route, or the error-handling middleware, which logs the error and answers 500.
\<close>

definition post_send_message ::
  "conn_state \<Rightarrow> wa_client \<Rightarrow> string \<Rightarrow> request_body \<Rightarrow> response \<times> action list" where
  "post_send_message s client now rb =
     (case rb of
        Rejected err \<Rightarrow>
          (internal_error_response,
           [ConsoleError [JStr ''Unhandled error:'', error_value err]])
      | Parsed req_body \<Rightarrow> send_message s client now req_body)"

text \<open>The \<^verbatim>\<open>error\<close> field of a response body.\<close>

definition error_field :: "response \<Rightarrow> jsval" where
  "error_field r = get_prop (body r) ''error''"

text \<open>The addresses and texts handed to \<^verbatim>\<open>client.sendMessage\<close>.\<close>

fun sends :: "action list \<Rightarrow> (string \<times> jsval) list" where
  "sends [] = []"
| "sends (SendMessage a m # as) = (a, m) # sends as"
| "sends (x # as) = sends as"

fun normalizer_calls :: "action list \<Rightarrow> jsval list" where
  "normalizer_calls [] = []"
| "normalizer_calls (FormatPhoneNumber v # as) = v # normalizer_calls as"
| "normalizer_calls (x # as) = normalizer_calls as"

fun lookups :: "action list \<Rightarrow> string list" where
  "lookups [] = []"
| "lookups (IsRegisteredUser a # as) = a # lookups as"
| "lookups (x # as) = lookups as"


text \<open>A request body without the property \<open>k\<close>.\<close>

definition delete_prop :: "string \<Rightarrow> (string \<times> jsval) list \<Rightarrow> (string \<times> jsval) list" where
  "delete_prop k obj = filter (\<lambda>kv. fst kv \<noteq> k) obj"


section \<open>Sample inputs\<close>

text \<open>A client on which every address is registered and every send succeeds.\<close>

definition accepting_client :: wa_client where
  "accepting_client =
     \<lparr>isRegisteredUser = (\<lambda>address. Inr True),
      sendMessage = (\<lambda>address text. Inr ''3EB0A1B2C3'')\<rparr>"

definition ready_state :: conn_state where
  "ready_state = \<lparr>isReady = True, qrCodeData = None\<rparr>"

definition sample_now :: string where
  "sample_now = ''2024-01-01T00:00:00.000Z''"

definition malformed_request :: "(string \<times> jsval) list" where
  "malformed_request = [(''phoneNumber'', JStr ''abc''), (''message'', JStr ''hi'')]"


text \<open>The error of a body that breaks off in the middle of its JSON text.\<close>

definition sample_parse_error :: js_error where
  "sample_parse_error = SyntaxError ''Unexpected end of JSON input''"

text \<open>
  A renderer that encodes at most 2953 characters, the capacity of the largest QR symbol,
  and throws on a longer payload; and a payload of 3000 characters.
\<close>

definition sample_renderer :: "string \<Rightarrow> js_error + unit" where
  "sample_renderer qr =
     (if length qr > 2953 then Inl (Error ''code length overflow'') else Inr ())"

definition oversized_payload :: string where
  "oversized_payload = replicate 3000 (CHR ''2'')"


section \<open>Properties of the normalizer\<close>

lemma replace_non_digits_filter: "replace_non_digits s = filter is_digit s"
  by (induction s) simp_all

lemma startsWith_take: "startsWith s p \<longleftrightarrow> take (length p) s = p"
  by (induction s p rule: startsWith.induct) auto

declare formatPhoneNumber.simps [simp del]

lemma startsWith_250: "startsWith s ''250'' \<longleftrightarrow> take 3 s = ''250''"
  using startsWith_take [of s "''250''"] by (simp add: eval_nat_numeral)

lemma startsWith_0: "startsWith s ''0'' \<longleftrightarrow> take 1 s = ''0''"
  using startsWith_take [of s "''0''"] by simp

lemma formatPhoneNumber_unfold:
  "formatPhoneNumber (JStr s) =
     (let d = filter is_digit s in
      if take 3 d = ''250'' then
        (if length d = 12 then Inr (d @ ''@c.us'') else Inl (Error msg_country_code))
      else if take 1 d = ''0'' then
        (if length d = 10 then Inr (''250'' @ tl d @ ''@c.us'') else Inl (Error msg_local))
      else if length d = 9 then Inr (''250'' @ d @ ''@c.us'')
      else Inl (Error msg_format))"
  by (simp only: formatPhoneNumber.simps replace_non_digits_filter startsWith_250 startsWith_0
        substring_def Let_def)
     (simp add: drop_Suc)

text \<open>
  Claim C2. For every string, the normalizer first drops each character that is not a
  decimal digit and then decides on the digits \<open>d\<close> that remain: with the prefix 250 it
  returns \<open>d\<close> followed by \<^verbatim>\<open>@c.us\<close> exactly when there are 12 digits; with the prefix 0
  it returns 250, \<open>d\<close> without its first digit and \<^verbatim>\<open>@c.us\<close> exactly when there are 10;
  otherwise it returns 250, \<open>d\<close> and \<^verbatim>\<open>@c.us\<close> exactly when there are 9. Every other
  shape fails, and every failure is one of the three errors the normalizer throws on
  purpose: the result is always a value, an address or such an error.
\<close>
theorem formatPhoneNumber_classifies:
  "formatPhoneNumber (JStr s) =
     (let d = filter is_digit s in
      if take 3 d = ''250'' then
        (if length d = 12 then Inr (d @ ''@c.us'') else Inl (Error msg_country_code))
      else if take 1 d = ''0'' then
        (if length d = 10 then Inr (''250'' @ tl d @ ''@c.us'') else Inl (Error msg_local))
      else if length d = 9 then Inr (''250'' @ d @ ''@c.us'')
      else Inl (Error msg_format))
   \<and> ((\<exists>a. formatPhoneNumber (JStr s) = Inr a) \<longleftrightarrow>
        (let d = filter is_digit s in
         take 3 d = ''250'' \<and> length d = 12 \<or>
         take 1 d = ''0'' \<and> length d = 10 \<or>
         take 3 d \<noteq> ''250'' \<and> take 1 d \<noteq> ''0'' \<and> length d = 9))
   \<and> (\<forall>e. formatPhoneNumber (JStr s) = Inl e \<longrightarrow> e \<in> invalid_format)
   \<and> formatPhoneNumber (JStr s) = formatPhoneNumber (JStr (filter is_digit s))"
proof (intro conjI)
  let ?d = "filter is_digit s"
  show "formatPhoneNumber (JStr s) =
     (let d = filter is_digit s in
      if take 3 d = ''250'' then
        (if length d = 12 then Inr (d @ ''@c.us'') else Inl (Error msg_country_code))
      else if take 1 d = ''0'' then
        (if length d = 10 then Inr (''250'' @ tl d @ ''@c.us'') else Inl (Error msg_local))
      else if length d = 9 then Inr (''250'' @ d @ ''@c.us'')
      else Inl (Error msg_format))"
    by (rule formatPhoneNumber_unfold)
  have clash: "take 1 ?d = ''0'' \<Longrightarrow> take 3 ?d \<noteq> ''250''"
    by (cases ?d) auto
  show "(\<exists>a. formatPhoneNumber (JStr s) = Inr a) \<longleftrightarrow>
        (let d = filter is_digit s in
         take 3 d = ''250'' \<and> length d = 12 \<or>
         take 1 d = ''0'' \<and> length d = 10 \<or>
         take 3 d \<noteq> ''250'' \<and> take 1 d \<noteq> ''0'' \<and> length d = 9)"
    using clash unfolding formatPhoneNumber_unfold Let_def by auto
  show "\<forall>e. formatPhoneNumber (JStr s) = Inl e \<longrightarrow> e \<in> invalid_format"
    unfolding formatPhoneNumber_unfold Let_def invalid_format_def
    by (auto split: if_splits)
  show "formatPhoneNumber (JStr s) = formatPhoneNumber (JStr (filter is_digit s))"
    unfolding formatPhoneNumber_unfold by simp
qed

theorem formatPhoneNumber_classifies_witness:
  "formatPhoneNumber (JStr ''+250 (788) 123-456'') = Inr ''250788123456@c.us''
   \<and> formatPhoneNumber (JStr ''25078812345'') = Inl (Error msg_country_code)
   \<and> formatPhoneNumber (JStr ''0788123456'') = Inr ''250788123456@c.us''
   \<and> formatPhoneNumber (JStr ''078812345'') = Inl (Error msg_local)
   \<and> formatPhoneNumber (JStr ''788123456'') = Inr ''250788123456@c.us''
   \<and> formatPhoneNumber (JStr ''abc'') = Inl (Error msg_format)
   \<and> Error msg_format \<in> invalid_format"
  using formatPhoneNumber_classifies [of "''+250 (788) 123-456''"]
    formatPhoneNumber_classifies [of "''25078812345''"]
    formatPhoneNumber_classifies [of "''0788123456''"]
    formatPhoneNumber_classifies [of "''078812345''"]
    formatPhoneNumber_classifies [of "''788123456''"]
    formatPhoneNumber_classifies [of "''abc''"]
  by (simp del: formatPhoneNumber.simps add: is_digit_def)

lemma filter_all_digits: "\<forall>c\<in>set d. is_digit c \<Longrightarrow> filter is_digit d = d"
  by (induction d) simp_all

lemma filter_c_us: "filter is_digit ''@c.us'' = []"
  by (simp add: is_digit_def)

text \<open>
  Claim C8. A string of 12 digits that starts with 250 normalizes to itself followed by
  \<^verbatim>\<open>@c.us\<close>, and normalizing that result again, with its last five characters taken off
  (or left in place), gives the same address.
\<close>
theorem formatPhoneNumber_canonical_idempotent:
  assumes "length d = 12" and "\<forall>c\<in>set d. is_digit c" and "startsWith d ''250''"
  shows "formatPhoneNumber (JStr d) = Inr (d @ ''@c.us'')
         \<and> (\<forall>r. formatPhoneNumber (JStr d) = Inr r \<longrightarrow>
               formatPhoneNumber (JStr (take (length r - length ''@c.us'') r)) = Inr r)
         \<and> formatPhoneNumber (JStr (d @ ''@c.us'')) = Inr (d @ ''@c.us'')"
proof -
  have d: "filter is_digit d = d"
    using assms(2) by (rule filter_all_digits)
  have p: "take 3 d = ''250''"
    using assms(3) by (simp only: startsWith_250)
  have first: "formatPhoneNumber (JStr d) = Inr (d @ ''@c.us'')"
    using assms(1) d p by (simp add: formatPhoneNumber_unfold)
  have again: "formatPhoneNumber (JStr (d @ ''@c.us'')) = Inr (d @ ''@c.us'')"
    using assms(1) d p filter_c_us by (simp add: formatPhoneNumber_unfold)
  show ?thesis
    using first again by simp
qed

theorem formatPhoneNumber_canonical_idempotent_witness:
  "length ''250788123456'' = 12 \<and> list_all is_digit ''250788123456''
   \<and> startsWith ''250788123456'' ''250''
   \<and> formatPhoneNumber (JStr ''250788123456'') = Inr ''250788123456@c.us''
   \<and> formatPhoneNumber (JStr (take (length ''250788123456@c.us'' - length ''@c.us'')
        ''250788123456@c.us'')) = Inr ''250788123456@c.us''"
proof -
  have h1: "length ''250788123456'' = 12" by simp
  have h2: "\<forall>c\<in>set ''250788123456''. is_digit c" by (simp add: is_digit_def)
  have h3: "startsWith ''250788123456'' ''250''" by simp
  show ?thesis
    using h1 h2 h3 formatPhoneNumber_canonical_idempotent [OF h1 h2 h3]
    by (simp add: list_all_iff)
qed


section \<open>Properties of the lifecycle events\<close>

text \<open>
  Claim C3 says that a QR code with payload \<open>p\<close> always stores \<open>p\<close> in \<^verbatim>\<open>qrCodeData\<close>. The
  handler renders the code on the terminal first: when the renderer throws, as it does on
  a payload too long to encode, the assignment is never reached and the state is as
  before.
\<close>
theorem qr_render_failure_counterexample:
  "state_after (on_event sample_renderer (Qr oversized_payload) initial_state) = initial_state
   \<and> qrCodeData (state_after (on_event sample_renderer (Qr oversized_payload) initial_state))
       \<noteq> Some oversized_payload
   \<and> thrown (on_event sample_renderer (Qr oversized_payload) initial_state)
       = Some (Error ''code length overflow'')"
  by (simp add: state_after_def thrown_def sample_renderer_def oversized_payload_def
      initial_state_def)

text \<open>
  Claim C3, amended. A QR code with payload \<open>p\<close> that the renderer renders without throwing
  stores \<open>p\<close> in \<^verbatim>\<open>qrCodeData\<close>; when the renderer throws, the handler throws the same error
  and changes nothing; either way \<^verbatim>\<open>isReady\<close> is as it was. Ready sets \<^verbatim>\<open>isReady\<close> and
  clears \<^verbatim>\<open>qrCodeData\<close>; authenticated changes nothing; an authentication failure clears
  \<^verbatim>\<open>isReady\<close> and keeps \<^verbatim>\<open>qrCodeData\<close>; a disconnection clears \<^verbatim>\<open>isReady\<close>, keeps
  \<^verbatim>\<open>qrCodeData\<close> and sets one timer, of 5000 milliseconds, that initializes the client
  again. No other of these events sets a timer.
\<close>
theorem on_event_effects:
  "(generate p = Inr () \<longrightarrow>
      state_after (on_event generate (Qr p) s) = s\<lparr>qrCodeData := Some p\<rparr>
      \<and> thrown (on_event generate (Qr p) s) = None)
   \<and> (\<forall>e. generate p = Inl e \<longrightarrow>
         state_after (on_event generate (Qr p) s) = s
         \<and> thrown (on_event generate (Qr p) s) = Some e)
   \<and> isReady (state_after (on_event generate (Qr p) s)) = isReady s
   \<and> state_after (on_event generate Ready s) = s\<lparr>isReady := True, qrCodeData := None\<rparr>
   \<and> state_after (on_event generate Authenticated s) = s
   \<and> state_after (on_event generate (AuthFailure msg) s) = s\<lparr>isReady := False\<rparr>
   \<and> qrCodeData (state_after (on_event generate (AuthFailure msg) s)) = qrCodeData s
   \<and> state_after (on_event generate (Disconnected reason) s) = s\<lparr>isReady := False\<rparr>
   \<and> qrCodeData (state_after (on_event generate (Disconnected reason) s)) = qrCodeData s
   \<and> timers (actions_of (on_event generate (Disconnected reason) s)) =
       [(ClientInitialize, 5000)]
   \<and> timers (actions_of (on_event generate (Qr p) s)) = []
   \<and> timers (actions_of (on_event generate Ready s)) = []
   \<and> timers (actions_of (on_event generate Authenticated s)) = []
   \<and> timers (actions_of (on_event generate (AuthFailure msg) s)) = []
   \<and> thrown (on_event generate Ready s) = None
   \<and> thrown (on_event generate Authenticated s) = None
   \<and> thrown (on_event generate (AuthFailure msg) s) = None
   \<and> thrown (on_event generate (Disconnected reason) s) = None"
  by (simp add: state_after_def actions_of_def thrown_def split: sum.splits)

theorem on_event_effects_witness:
  "sample_renderer ''2@abc'' = Inr ()
   \<and> state_after (on_event sample_renderer (Qr ''2@abc'') initial_state) =
       initial_state\<lparr>qrCodeData := Some ''2@abc''\<rparr>
   \<and> sample_renderer oversized_payload = Inl (Error ''code length overflow'')
   \<and> state_after (on_event sample_renderer (Qr oversized_payload) ready_state) = ready_state
   \<and> timers (actions_of (on_event sample_renderer (Disconnected (JStr ''LOGOUT'')) ready_state))
       = [(ClientInitialize, 5000)]"
proof -
  have h1: "sample_renderer ''2@abc'' = Inr ()"
    by (simp add: sample_renderer_def)
  have h2: "sample_renderer oversized_payload = Inl (Error ''code length overflow'')"
    by (simp add: sample_renderer_def oversized_payload_def)
  note a = on_event_effects [of sample_renderer "''2@abc''" initial_state]
  note b = on_event_effects [of sample_renderer oversized_payload ready_state _
      "JStr ''LOGOUT''"]
  show ?thesis
    using h1 h2 a b by blast
qed

lemma on_event_keeps_invariant:
  assumes "qrCodeData s \<noteq> None \<longrightarrow> \<not> isReady s" and "is_qr e \<longrightarrow> \<not> isReady s"
  shows "qrCodeData (state_after (on_event generate e s)) \<noteq> None \<longrightarrow>
         \<not> isReady (state_after (on_event generate e s))"
  using assms by (cases e) (simp_all add: state_after_def split: sum.splits)

lemma run_events_keeps_invariant:
  "qr_only_when_not_ready generate evs s \<Longrightarrow> (qrCodeData s \<noteq> None \<longrightarrow> \<not> isReady s) \<Longrightarrow>
   qrCodeData (run_events generate evs s) \<noteq> None \<longrightarrow> \<not> isReady (run_events generate evs s)"
proof (induction evs arbitrary: s)
  case Nil
  then show ?case by simp
next
  case (Cons e es)
  from Cons.prems(1) have qr: "is_qr e \<longrightarrow> \<not> isReady s"
    and rest: "qr_only_when_not_ready generate es (state_after (on_event generate e s))"
    by (simp_all split: if_splits)
  have "qrCodeData (state_after (on_event generate e s)) \<noteq> None \<longrightarrow>
        \<not> isReady (state_after (on_event generate e s))"
    using Cons.prems(2) qr by (rule on_event_keeps_invariant)
  with rest show ?case
    using Cons.IH [of "state_after (on_event generate e s)"] by simp
qed

text \<open>
  Claim C4 says that in every state reachable from the initial one by any sequence of
  events, a stored QR payload implies that \<^verbatim>\<open>isReady\<close> is false. It fails: the QR handler
  does not touch \<^verbatim>\<open>isReady\<close>, so a QR code that arrives after a ready event leaves both
  set.
\<close>
theorem qr_after_ready_counterexample:
  "qrCodeData (run_events sample_renderer [Ready, Qr ''2@abc''] initial_state) \<noteq> None
   \<and> isReady (run_events sample_renderer [Ready, Qr ''2@abc''] initial_state)"
  by (simp add: initial_state_def state_after_def sample_renderer_def)

text \<open>
  Claim C4, amended. In every state reached from the initial one by a sequence of events in
  which each QR code arrives while \<^verbatim>\<open>isReady\<close> is false, a stored QR payload implies that
  \<^verbatim>\<open>isReady\<close> is false, whatever the renderer does.
\<close>
theorem qr_pending_implies_not_ready:
  assumes "qr_only_when_not_ready generate evs initial_state"
    and "qrCodeData (run_events generate evs initial_state) \<noteq> None"
  shows "\<not> isReady (run_events generate evs initial_state)"
proof -
  have "qrCodeData initial_state \<noteq> None \<longrightarrow> \<not> isReady initial_state"
    by (simp add: initial_state_def)
  with assms(1)
  have "qrCodeData (run_events generate evs initial_state) \<noteq> None \<longrightarrow>
        \<not> isReady (run_events generate evs initial_state)"
    by (rule run_events_keeps_invariant)
  with assms(2) show ?thesis by simp
qed

theorem qr_pending_implies_not_ready_witness:
  "qr_only_when_not_ready sample_renderer
     [Qr ''a'', Ready, Disconnected (JStr ''LOGOUT''), Qr ''b''] initial_state
   \<and> qrCodeData (run_events sample_renderer
        [Qr ''a'', Ready, Disconnected (JStr ''LOGOUT''), Qr ''b''] initial_state) = Some ''b''
   \<and> \<not> isReady (run_events sample_renderer
        [Qr ''a'', Ready, Disconnected (JStr ''LOGOUT''), Qr ''b''] initial_state)"
proof -
  let ?evs = "[Qr ''a'', Ready, Disconnected (JStr ''LOGOUT''), Qr ''b'']"
  have h1: "qr_only_when_not_ready sample_renderer ?evs initial_state"
    by (simp add: initial_state_def state_after_def sample_renderer_def)
  have h2: "qrCodeData (run_events sample_renderer ?evs initial_state) = Some ''b''"
    by (simp add: initial_state_def state_after_def sample_renderer_def)
  then have h3: "qrCodeData (run_events sample_renderer ?evs initial_state) \<noteq> None"
    by simp
  show ?thesis
    using h1 h2 qr_pending_implies_not_ready [OF h1 h3] by simp
qed


section \<open>Properties of GET /qr\<close>

text \<open>
  Claim C7 says that whenever a QR payload is stored the body of \<^verbatim>\<open>GET /qr\<close> carries it.
  The handler tests the payload for truth, and the empty string is false: with the empty
  payload stored and \<^verbatim>\<open>isReady\<close> true, the body reports an authenticated client and has no
  \<^verbatim>\<open>qrCode\<close> field.
\<close>
theorem get_qr_empty_payload_counterexample:
  "qrCodeData \<lparr>isReady = True, qrCodeData = Some ''''\<rparr> = Some ''''
   \<and> get_qr \<lparr>isReady = True, qrCodeData = Some ''''\<rparr> =
       res_json [(''message'', JStr ''Bot is already authenticated and ready'')]
   \<and> map_of (body (get_qr \<lparr>isReady = True, qrCodeData = Some ''''\<rparr>)) ''qrCode'' = None"
  by (simp add: get_qr_def qr_value_def res_json_def)

text \<open>
  Claim C7, amended. \<^verbatim>\<open>GET /qr\<close> always answers 200. If the stored QR payload is a
  non-empty string, the body carries it with the scan instructions, whatever \<^verbatim>\<open>isReady\<close>
  is; otherwise (no payload, or the empty string), the body says that the client is
  already authenticated if \<^verbatim>\<open>isReady\<close> is true, and that the QR code is not available
  yet if it is false.
\<close>
theorem get_qr_priority:
  "statusCode (get_qr s) = 200
   \<and> (\<forall>q. qrCodeData s = Some q \<and> q \<noteq> [] \<longrightarrow>
         body (get_qr s) =
           [(''qrCode'', JStr q),
            (''message'', JStr ''Please scan this QR code with your WhatsApp mobile app'')])
   \<and> ((qrCodeData s = None \<or> qrCodeData s = Some []) \<and> isReady s \<longrightarrow>
         body (get_qr s) = [(''message'', JStr ''Bot is already authenticated and ready'')])
   \<and> ((qrCodeData s = None \<or> qrCodeData s = Some []) \<and> \<not> isReady s \<longrightarrow>
         body (get_qr s) = [(''message'', JStr ''QR code not available yet. Please wait...'')])"
  by (auto simp: get_qr_def qr_value_def res_json_def split: option.splits)

theorem get_qr_priority_witness:
  "statusCode (get_qr \<lparr>isReady = True, qrCodeData = Some ''2@abc''\<rparr>) = 200
   \<and> body (get_qr \<lparr>isReady = True, qrCodeData = Some ''2@abc''\<rparr>) =
       [(''qrCode'', JStr ''2@abc''),
        (''message'', JStr ''Please scan this QR code with your WhatsApp mobile app'')]
   \<and> body (get_qr \<lparr>isReady = True, qrCodeData = None\<rparr>) =
       [(''message'', JStr ''Bot is already authenticated and ready'')]
   \<and> body (get_qr \<lparr>isReady = False, qrCodeData = None\<rparr>) =
       [(''message'', JStr ''QR code not available yet. Please wait...'')]"
  using get_qr_priority [of "\<lparr>isReady = True, qrCodeData = Some ''2@abc''\<rparr>"]
    get_qr_priority [of "\<lparr>isReady = True, qrCodeData = None\<rparr>"]
    get_qr_priority [of "\<lparr>isReady = False, qrCodeData = None\<rparr>"]
  by simp


section \<open>Properties of POST /send-message\<close>

lemma send_message_not_ready:
  "\<not> isReady s \<Longrightarrow> send_message s client now v = (not_ready_response, [])"
  by (simp add: send_message_def send_message_try_def)

lemma destructure_body_defined:
  "v \<noteq> JUndefined \<Longrightarrow> v \<noteq> JNull \<Longrightarrow>
   destructure_body v = Inr (get_field v ''phoneNumber'', get_field v ''message'')"
  by (cases v) simp_all

lemma send_message_falsy:
  "isReady s \<Longrightarrow> v \<noteq> JUndefined \<Longrightarrow> v \<noteq> JNull \<Longrightarrow>
   \<not> truthy (get_field v ''phoneNumber'') \<or> \<not> truthy (get_field v ''message'') \<Longrightarrow>
   send_message s client now v = (missing_field_response, [])"
  by (auto simp: send_message_def send_message_try_def destructure_body_defined)

lemma get_prop_delete: "get_prop (delete_prop k obj) k = JUndefined"
proof -
  have "map_of (filter (\<lambda>kv. fst kv \<noteq> k) obj) k = None"
    by (induction obj) auto
  then show ?thesis
    by (simp add: get_prop_def delete_prop_def)
qed

text \<open>
  Claim C1. A request received while ready and with both fields present, whose phone number
  fails to normalize, is to be answered with status 400 and the normalizer's message. The
  route answers its two other kinds of bad input, a missing field and an unregistered
  number, with 400; the normalizer's error it lets fall into the \<^verbatim>\<open>catch\<close> clause meant for
  failed sends. For the phone number \<^verbatim>\<open>abc\<close> the answer is 500, with the normalizer's
  message behind the prefix of a failed send.
\<close>
theorem normalizer_failure_answered_500:
  "isReady ready_state
   \<and> truthy (get_field (JObj malformed_request) ''phoneNumber'')
   \<and> truthy (get_field (JObj malformed_request) ''message'')
   \<and> formatPhoneNumber (get_field (JObj malformed_request) ''phoneNumber'')
       = Inl (Error msg_format)
   \<and> statusCode (fst (post_send_message ready_state accepting_client sample_now
        (Parsed (JObj malformed_request)))) = 500
   \<and> statusCode (fst (post_send_message ready_state accepting_client sample_now
        (Parsed (JObj malformed_request)))) \<noteq> 400
   \<and> error_field (fst (post_send_message ready_state accepting_client sample_now
        (Parsed (JObj malformed_request)))) = JStr (''Failed to send message: '' @ msg_format)
   \<and> statusCode missing_field_response = 400
   \<and> statusCode not_registered_response = 400"
  by (simp add: post_send_message_def send_message_def send_message_try_def ready_state_def
      malformed_request_def get_prop_def formatPhoneNumber.simps is_digit_def
      failure_response_def missing_field_response_def not_registered_response_def
      res_status_json_def error_field_def)

text \<open>
  Claim C5 says that while \<^verbatim>\<open>isReady\<close> is false every request is answered 503, whatever its
  body. The body parsers run before the route: a body they reject goes to the
  error-handling middleware, which answers 500 without looking at \<^verbatim>\<open>isReady\<close>.
\<close>
theorem rejected_body_not_ready_counterexample:
  "\<not> isReady initial_state
   \<and> statusCode (fst (post_send_message initial_state accepting_client sample_now
        (Rejected sample_parse_error))) = 500
   \<and> fst (post_send_message initial_state accepting_client sample_now
        (Rejected sample_parse_error)) \<noteq> not_ready_response"
  by (simp add: post_send_message_def initial_state_def internal_error_response_def
      not_ready_response_def res_status_json_def)

text \<open>
  Claim C5, amended. While \<^verbatim>\<open>isReady\<close> is false, every request to \<^verbatim>\<open>POST /send-message\<close>
  that the body parsers pass on to the route is answered with status 503 and an explanatory
  error, whatever \<^verbatim>\<open>req.body\<close> holds (nothing at all, an object without the fields, a
  malformed phone number), and nothing is called.
\<close>
theorem not_ready_answers_503:
  assumes "\<not> isReady s"
  shows "post_send_message s client now (Parsed req_body) = (not_ready_response, [])
         \<and> statusCode (fst (post_send_message s client now (Parsed req_body))) = 503
         \<and> error_field (fst (post_send_message s client now (Parsed req_body))) =
             JStr ''WhatsApp client is not ready. Please check /status endpoint.''"
  using assms
  by (simp add: post_send_message_def send_message_not_ready)
     (simp add: not_ready_response_def res_status_json_def error_field_def get_prop_def)

theorem not_ready_answers_503_witness:
  "\<not> isReady initial_state
   \<and> statusCode (fst (post_send_message initial_state accepting_client sample_now
        (Parsed JUndefined))) = 503
   \<and> statusCode (fst (post_send_message initial_state accepting_client sample_now
        (Parsed (JObj [])))) = 503
   \<and> post_send_message initial_state accepting_client sample_now
        (Parsed (JObj malformed_request)) = (not_ready_response, [])"
proof -
  have h: "\<not> isReady initial_state"
    by (simp add: initial_state_def)
  show ?thesis
    using h not_ready_answers_503 [OF h, of accepting_client sample_now JUndefined]
      not_ready_answers_503 [OF h, of accepting_client sample_now "JObj []"]
      not_ready_answers_503 [OF h, of accepting_client sample_now "JObj malformed_request"]
    by blast
qed

text \<open>
  Claim C6 says that while \<^verbatim>\<open>isReady\<close> is true every request that lacks \<^verbatim>\<open>phoneNumber\<close> or
  \<^verbatim>\<open>message\<close> is answered 400. A request whose body the parsers reject has neither field
  and is answered 500 by the error-handling middleware; and where \<^verbatim>\<open>req.body\<close> is
  \<^verbatim>\<open>undefined\<close> the route throws before it tests the fields, and answers 500.
\<close>
theorem missing_body_counterexample:
  "isReady ready_state
   \<and> statusCode (fst (post_send_message ready_state accepting_client sample_now
        (Rejected sample_parse_error))) = 500
   \<and> statusCode (fst (post_send_message ready_state accepting_client sample_now
        (Parsed JUndefined))) = 500"
  by (simp add: post_send_message_def send_message_def send_message_try_def ready_state_def
      internal_error_response_def failure_response_def res_status_json_def)

text \<open>
  Claim C6, amended. While \<^verbatim>\<open>isReady\<close> is true, a request that reaches the route with a
  parsed body (\<^verbatim>\<open>req.body\<close> neither \<^verbatim>\<open>undefined\<close> nor \<^verbatim>\<open>null\<close>) that lacks \<^verbatim>\<open>phoneNumber\<close>
  or \<^verbatim>\<open>message\<close> is answered with status 400, and the normalizer is not called for it.
\<close>
theorem missing_field_answers_400:
  assumes "isReady s"
    and "req_body \<noteq> JUndefined" and "req_body \<noteq> JNull"
    and "get_field req_body ''phoneNumber'' = JUndefined
         \<or> get_field req_body ''message'' = JUndefined"
  shows "fst (post_send_message s client now (Parsed req_body)) = missing_field_response
         \<and> statusCode (fst (post_send_message s client now (Parsed req_body))) = 400
         \<and> error_field (fst (post_send_message s client now (Parsed req_body))) =
             JStr ''Phone number and message are required''
         \<and> normalizer_calls (snd (post_send_message s client now (Parsed req_body))) = []"
proof -
  have "\<not> truthy (get_field req_body ''phoneNumber'')
      \<or> \<not> truthy (get_field req_body ''message'')"
    using assms(4) by auto
  with assms(1,2,3) have "send_message s client now req_body = (missing_field_response, [])"
    by (rule send_message_falsy)
  then show ?thesis
    by (simp add: post_send_message_def missing_field_response_def res_status_json_def
        error_field_def get_prop_def)
qed

theorem missing_field_answers_400_witness:
  "isReady ready_state
   \<and> get_field (JObj [(''phoneNumber'', JStr ''abc'')]) ''message'' = JUndefined
   \<and> statusCode (fst (post_send_message ready_state accepting_client sample_now
        (Parsed (JObj [(''phoneNumber'', JStr ''abc'')])))) = 400
   \<and> normalizer_calls (snd (post_send_message ready_state accepting_client sample_now
        (Parsed (JObj [(''phoneNumber'', JStr ''abc'')])))) = []"
proof -
  let ?b = "JObj [(''phoneNumber'', JStr ''abc'')]"
  have h1: "isReady ready_state"
    by (simp add: ready_state_def)
  have h2: "?b \<noteq> JUndefined" and h3: "?b \<noteq> JNull"
    by simp_all
  have h4: "get_field ?b ''message'' = JUndefined"
    by (simp add: get_prop_def)
  then have h5: "get_field ?b ''phoneNumber'' = JUndefined \<or> get_field ?b ''message'' = JUndefined"
    by (rule disjI2)
  show ?thesis
    using h1 h4 missing_field_answers_400 [OF h1 h2 h3 h5, of accepting_client sample_now]
    by blast
qed

text \<open>
  Claim C10. While \<^verbatim>\<open>isReady\<close> is true, a request whose \<^verbatim>\<open>phoneNumber\<close> or \<^verbatim>\<open>message\<close>
  is the empty string gets the answer of the same request without that field: status 400
  with the missing-field error, and no call of the normalizer, of the registration lookup or
  of the send.
\<close>
theorem empty_string_treated_as_absent:
  assumes "isReady s"
    and "get_prop kvs ''phoneNumber'' = JStr '''' \<or> get_prop kvs ''message'' = JStr ''''"
  shows "post_send_message s client now (Parsed (JObj kvs)) = (missing_field_response, [])
         \<and> statusCode (fst (post_send_message s client now (Parsed (JObj kvs)))) = 400
         \<and> (get_prop kvs ''phoneNumber'' = JStr '''' \<longrightarrow>
              post_send_message s client now (Parsed (JObj kvs)) =
              post_send_message s client now (Parsed (JObj (delete_prop ''phoneNumber'' kvs))))
         \<and> (get_prop kvs ''message'' = JStr '''' \<longrightarrow>
              post_send_message s client now (Parsed (JObj kvs)) =
              post_send_message s client now (Parsed (JObj (delete_prop ''message'' kvs))))
         \<and> normalizer_calls (snd (post_send_message s client now (Parsed (JObj kvs)))) = []
         \<and> lookups (snd (post_send_message s client now (Parsed (JObj kvs)))) = []
         \<and> sends (snd (post_send_message s client now (Parsed (JObj kvs)))) = []"
proof -
  have "\<not> truthy (get_field (JObj kvs) ''phoneNumber'')
      \<or> \<not> truthy (get_field (JObj kvs) ''message'')"
    using assms(2) by auto
  with assms(1) have here: "send_message s client now (JObj kvs) = (missing_field_response, [])"
    by (intro send_message_falsy) simp_all
  have gone: "send_message s client now (JObj (delete_prop k kvs)) = (missing_field_response, [])"
    if "k = ''phoneNumber'' \<or> k = ''message''" for k
  proof -
    have "\<not> truthy (get_field (JObj (delete_prop k kvs)) ''phoneNumber'')
        \<or> \<not> truthy (get_field (JObj (delete_prop k kvs)) ''message'')"
      using that get_prop_delete [of k kvs] by auto
    with assms(1) show ?thesis
      by (intro send_message_falsy) simp_all
  qed
  show ?thesis
    using here gone [of "''phoneNumber''"] gone [of "''message''"]
    by (simp add: post_send_message_def missing_field_response_def res_status_json_def)
qed

theorem empty_string_treated_as_absent_witness:
  "isReady ready_state
   \<and> get_prop [(''phoneNumber'', JStr ''0788123456''), (''message'', JStr '''')] ''message''
       = JStr ''''
   \<and> post_send_message ready_state accepting_client sample_now
        (Parsed (JObj [(''phoneNumber'', JStr ''0788123456''), (''message'', JStr '''')]))
       = (missing_field_response, [])
   \<and> post_send_message ready_state accepting_client sample_now
        (Parsed (JObj [(''phoneNumber'', JStr ''0788123456''), (''message'', JStr '''')]))
       = post_send_message ready_state accepting_client sample_now
           (Parsed (JObj (delete_prop ''message''
              [(''phoneNumber'', JStr ''0788123456''), (''message'', JStr '''')])))"
proof -
  let ?b = "[(''phoneNumber'', JStr ''0788123456''), (''message'', JStr '''')]"
  have h1: "isReady ready_state"
    by (simp add: ready_state_def)
  have h2: "get_prop ?b ''message'' = JStr ''''"
    by (simp add: get_prop_def)
  then have h3: "get_prop ?b ''phoneNumber'' = JStr '''' \<or> get_prop ?b ''message'' = JStr ''''"
    by (rule disjI2)
  show ?thesis
    using h1 h2 empty_string_treated_as_absent [OF h1 h3, of accepting_client sample_now]
    by blast
qed



end
